theory Spec2Isabelle
  imports Complex_Main
begin

section \<open>Numbers and strings of the Python source\<close>

text \<open>
  Python ints are \<open>int\<close>.  A Python float that is known to be finite is a
  real number, and every arithmetic step on such numbers is exact.
\<close>

text \<open>\<open>int(x)\<close> of a float truncates toward zero.\<close>

definition py_int :: "real \<Rightarrow> int" where
  "py_int x = (if 0 \<le> x then \<lfloor>x\<rfloor> else \<lceil>x\<rceil>)"

text \<open>
  \<open>round(x, n)\<close> rounds to \<open>n\<close> decimals, a tie going to the even neighbour.
\<close>

definition round_half_even :: "real \<Rightarrow> int" where
  "round_half_even y =
     (let f = \<lfloor>y\<rfloor>; d = y - of_int f
      in if d < 1 / 2 then f else if 1 / 2 < d then f + 1
         else if even f then f else f + 1)"

definition py_round :: "real \<Rightarrow> nat \<Rightarrow> real" where
  "py_round x n = of_int (round_half_even (x * 10 ^ n)) / 10 ^ n"

section \<open>Floats with their special values\<close>

text \<open>
  Where a property depends on what the code does with \<open>nan\<close> or \<open>inf\<close>, a
  float is a finite real, one of the two infinities, or NaN.  Arithmetic on finite
  values is exact and does not overflow; the special values follow IEEE 754:
  NaN absorbs, \<open>inf - inf\<close>, \<open>0 * inf\<close> and \<open>inf / inf\<close> are NaN, and every
  comparison with NaN is false.  Python raises ZeroDivisionError on a division
  by zero; no division of the functions below has a zero divisor, and the
  quotient is NaN here.
\<close>

datatype py_float = Finite real | PosInf | NegInf | NaN

instantiation py_float :: "{zero, one, plus, times, inverse, ord}"
begin

definition zero_py_float :: py_float where
  "zero_py_float = Finite 0"

definition one_py_float :: py_float where
  "one_py_float = Finite 1"

fun plus_py_float :: "py_float \<Rightarrow> py_float \<Rightarrow> py_float" where
  "plus_py_float NaN y = NaN"
| "plus_py_float x NaN = NaN"
| "plus_py_float (Finite a) (Finite b) = Finite (a + b)"
| "plus_py_float PosInf NegInf = NaN"
| "plus_py_float NegInf PosInf = NaN"
| "plus_py_float PosInf y = PosInf"
| "plus_py_float x PosInf = PosInf"
| "plus_py_float NegInf y = NegInf"
| "plus_py_float x NegInf = NegInf"

fun times_py_float :: "py_float \<Rightarrow> py_float \<Rightarrow> py_float" where
  "times_py_float NaN y = NaN"
| "times_py_float x NaN = NaN"
| "times_py_float (Finite a) (Finite b) = Finite (a * b)"
| "times_py_float (Finite a) PosInf = (if a = 0 then NaN else if 0 < a then PosInf else NegInf)"
| "times_py_float (Finite a) NegInf = (if a = 0 then NaN else if 0 < a then NegInf else PosInf)"
| "times_py_float PosInf (Finite b) = (if b = 0 then NaN else if 0 < b then PosInf else NegInf)"
| "times_py_float NegInf (Finite b) = (if b = 0 then NaN else if 0 < b then NegInf else PosInf)"
| "times_py_float PosInf PosInf = PosInf"
| "times_py_float NegInf NegInf = PosInf"
| "times_py_float PosInf NegInf = NegInf"
| "times_py_float NegInf PosInf = NegInf"

fun divide_py_float :: "py_float \<Rightarrow> py_float \<Rightarrow> py_float" where
  "divide_py_float NaN y = NaN"
| "divide_py_float x NaN = NaN"
| "divide_py_float (Finite a) (Finite b) = (if b = 0 then NaN else Finite (a / b))"
| "divide_py_float (Finite a) y = Finite 0"
| "divide_py_float PosInf (Finite b) = (if b = 0 then NaN else if 0 < b then PosInf else NegInf)"
| "divide_py_float NegInf (Finite b) = (if b = 0 then NaN else if 0 < b then NegInf else PosInf)"
| "divide_py_float x y = NaN"

definition inverse_py_float :: "py_float \<Rightarrow> py_float" where
  "inverse_py_float x = divide (Finite 1) x"

fun less_eq_py_float :: "py_float \<Rightarrow> py_float \<Rightarrow> bool" where
  "less_eq_py_float NaN y = False"
| "less_eq_py_float x NaN = False"
| "less_eq_py_float (Finite a) (Finite b) = (a \<le> b)"
| "less_eq_py_float NegInf y = True"
| "less_eq_py_float x PosInf = True"
| "less_eq_py_float x y = False"

fun less_py_float :: "py_float \<Rightarrow> py_float \<Rightarrow> bool" where
  "less_py_float NaN y = False"
| "less_py_float x NaN = False"
| "less_py_float (Finite a) (Finite b) = (a < b)"
| "less_py_float PosInf y = False"
| "less_py_float x NegInf = False"
| "less_py_float x y = True"

instance ..

end

instance py_float :: semigroup_add
proof
  fix a b c :: py_float
  show "a + b + c = a + (b + c)"
    by (cases a; cases b; cases c) simp_all
qed

instance py_float :: numeral ..

instance py_float :: power ..

text \<open>
  The functions that compute with floats are written once, for any number type
  with this arithmetic: at type \<open>real\<close> they are the reading on finite floats
  with exact arithmetic, at type \<open>py_float\<close> the reading with the special
  values.
\<close>

text \<open>Python's \<open>min(a, b)\<close> and \<open>max(a, b)\<close> keep \<open>a\<close> unless the comparison succeeds.\<close>

definition py_min :: "'a \<Rightarrow> 'a \<Rightarrow> ('a::ord)" where
  "py_min a b = (if b < a then b else a)"

definition py_max :: "'a \<Rightarrow> 'a \<Rightarrow> ('a::ord)" where
  "py_max a b = (if a < b then b else a)"

text \<open>
  \<open>np.maximum\<close> and \<open>np.minimum\<close> return NaN when an argument is NaN (the
  only value that is not \<open>\<le>\<close> itself); \<open>np.clip(x, lo, hi)\<close> is
  \<open>minimum(maximum(x, lo), hi)\<close>.
\<close>

definition np_maximum :: "'a \<Rightarrow> 'a \<Rightarrow> ('a::ord)" where
  "np_maximum a b = (if \<not> a \<le> a then a else if \<not> b \<le> b then b else if a \<le> b then b else a)"

definition np_minimum :: "'a \<Rightarrow> 'a \<Rightarrow> ('a::ord)" where
  "np_minimum a b = (if \<not> a \<le> a then a else if \<not> b \<le> b then b else if a \<le> b then a else b)"

definition np_clip :: "'a \<Rightarrow> 'a \<Rightarrow> 'a \<Rightarrow> ('a::ord)" where
  "np_clip x lo hi = np_minimum (np_maximum x lo) hi"

text \<open>The float of a list length.\<close>

primrec from_nat :: "nat \<Rightarrow> ('a::{zero, one, plus})" where
  "from_nat 0 = 0"
| "from_nat (Suc n) = from_nat n + 1"

section \<open>evaluate\_v4\_model.py: SuitabilityClassifier\<close>

text \<open>
  The six action strings of \<open>get_action_recommendation\<close> start with an emoji and
  continue in Vietnamese; each is named here by its upper-case keyword.  The
  descriptions returned by \<open>get_score_range\<close> are written without diacritics.
\<close>

datatype action = LOCK_IN | RECOMMEND | KEEP | ADJUST | SUPPORT | REMOVE

definition get_score_range :: "real \<Rightarrow> string \<times> string \<times> real" where
  "get_score_range score =
     (if score \<ge> 0.95 then (''Perfect Fit'', ''Toi uu ca nhan hoa'', 0.975)
      else if score \<ge> 0.85 then (''Very Good'', ''Rat hieu qua'', 0.9)
      else if score \<ge> 0.75 then (''Good'', ''Hieu qua tot'', 0.8)
      else if score \<ge> 0.6 then (''Moderate'', ''Dung nhom co nhung sai cuong do'', 0.675)
      else if score \<ge> 0.4 then (''Low'', ''Tac dong sai hoac phu tro yeu'', 0.5)
      else (''Ineffective'', ''Khong hieu qua / Khong dat muc tieu'', 0.2))"

definition get_action_recommendation :: "real \<Rightarrow> action" where
  "get_action_recommendation score =
     (if score \<ge> 0.95 then LOCK_IN
      else if score \<ge> 0.85 then RECOMMEND
      else if score \<ge> 0.75 then KEEP
      else if score \<ge> 0.6 then ADJUST
      else if score \<ge> 0.4 then SUPPORT
      else REMOVE)"

text \<open>
  The callers pair the category of \<open>get_score_range\<close> with the action of
  \<open>get_action_recommendation\<close> for the same score.
\<close>

definition classify :: "real \<Rightarrow> string \<times> action" where
  "classify score = (fst (get_score_range score), get_action_recommendation score)"

section \<open>data\_cleaning\_v4.py: readiness factor\<close>

definition calculate_readiness_factor_v4 :: "real \<Rightarrow> real \<Rightarrow> real \<Rightarrow> real" where
  "calculate_readiness_factor_v4 mood fatigue effort =
     (let base_score = 1.0;
          mood_adj = (if mood \<ge> 5 then 0.1 else if mood \<le> 2 then - 0.1
                      else (mood - 3) * 0.05);
          fatigue_adj = (if fatigue \<ge> 4 then - 0.12 else if fatigue \<le> 2 then 0.08
                         else (3 - fatigue) * 0.04);
          effort_adj = (if effort \<ge> 5 then - 0.03 else if effort \<le> 2 then 0.05
                        else 0.0);
          readiness = base_score + mood_adj + fatigue_adj + effort_adj
      in np_clip readiness 0.6 1.3)"

text \<open>
  The rule table as the specification words it: one adjustment per scale, each
  a three-way case, summed onto 1.0 and clamped.
\<close>

definition mood_rule :: "real \<Rightarrow> real" where
  "mood_rule m = (if 5 \<le> m then 1 / 10 else if m \<le> 2 then - (1 / 10) else (m - 3) * (5 / 100))"

definition fatigue_rule :: "real \<Rightarrow> real" where
  "fatigue_rule f = (if 4 \<le> f then - (12 / 100) else if f \<le> 2 then 8 / 100 else (3 - f) * (4 / 100))"

definition effort_rule :: "real \<Rightarrow> real" where
  "effort_rule e = (if 5 \<le> e then - (3 / 100) else if e \<le> 2 then 5 / 100 else 0)"

definition clamp :: "real \<Rightarrow> real \<Rightarrow> real \<Rightarrow> real" where
  "clamp lo hi x = (if x < lo then lo else if hi < x then hi else x)"

section \<open>evaluate\_v4\_model.py: workout decoding\<close>

record goal_rules =
  intensity_percent :: "real \<times> real"
  rep_range :: "int \<times> int"
  sets_range :: "int \<times> int"
  rest_minutes :: "real \<times> real"
  description :: string
  target_suitability_range :: "real \<times> real"

definition strength_rules :: goal_rules where
  "strength_rules = \<lparr>intensity_percent = (0.85, 0.95), rep_range = (5, 15),
     sets_range = (1, 5), rest_minutes = (3, 5),
     description = ''Strength Training - Heavy loads, low reps'',
     target_suitability_range = (0.75, 1.0)\<rparr>"

definition hypertrophy_rules :: goal_rules where
  "hypertrophy_rules = \<lparr>intensity_percent = (0.70, 0.80), rep_range = (8, 20),
     sets_range = (1, 5), rest_minutes = (1, 2),
     description = ''Hypertrophy - Moderate loads, medium reps'',
     target_suitability_range = (0.75, 1.0)\<rparr>"

definition endurance_rules :: goal_rules where
  "endurance_rules = \<lparr>intensity_percent = (0.50, 0.60), rep_range = (10, 30),
     sets_range = (1, 5), rest_minutes = (0.5, 1),
     description = ''Endurance - Light loads, high reps'',
     target_suitability_range = (0.6, 1.0)\<rparr>"

definition general_fitness_rules :: goal_rules where
  "general_fitness_rules = \<lparr>intensity_percent = (0.60, 0.75), rep_range = (10, 30),
     sets_range = (1, 5), rest_minutes = (1, 2),
     description = ''General Fitness - Balanced approach'',
     target_suitability_range = (0.6, 0.95)\<rparr>"

definition WORKOUT_GOAL_MAPPING_V4 :: "string \<rightharpoonup> goal_rules" where
  "WORKOUT_GOAL_MAPPING_V4 = map_of
     [(''strength'', strength_rules), (''hypertrophy'', hypertrophy_rules),
      (''endurance'', endurance_rules), (''general_fitness'', general_fitness_rules)]"

record 'a selection =
  lowest :: 'a
  highest :: 'a
  recommended :: 'a

record workout_params =
  predicted_1rm :: real
  adjusted_1rm :: real
  readiness_factor :: real
  goal :: string
  training_weight_kg :: "real selection"
  reps_selection :: "int selection"
  sets_selection :: "int selection"
  rest_selection :: "real selection"
  rules_description :: string
  rules_target_suitability_range :: "real \<times> real"

definition select_rules :: "string \<Rightarrow> string \<times> goal_rules" where
  "select_rules g =
     (case WORKOUT_GOAL_MAPPING_V4 g of
        None \<Rightarrow> (''general_fitness'', general_fitness_rules)
      | Some rules \<Rightarrow> (g, rules))"

definition decode_intensity_to_workout :: "real \<Rightarrow> string \<Rightarrow> real \<Rightarrow> workout_params" where
  "decode_intensity_to_workout predicted goal0 readiness =
     (let (g, rules) = select_rules goal0;
          adjusted = predicted * readiness;
          (intensity_min, intensity_max) = intensity_percent rules;
          training_weight_min = adjusted * intensity_min;
          training_weight_max = adjusted * intensity_max;
          (rep_min, rep_max) = rep_range rules;
          (sets_min, sets_max) = sets_range rules;
          (rest_min, rest_max) = rest_minutes rules;
          (recommended_reps, recommended_sets, recommended_rest) =
            (if readiness > 1.1 then
               (py_int (real_of_int (rep_min + rep_max) / 2 * 0.8), sets_max, rest_min)
             else if readiness < 0.9 then
               (py_int (real_of_int (rep_min + rep_max) / 2 * 1.2), sets_min, rest_max)
             else
               ((rep_min + rep_max) div 2, (sets_min + sets_max) div 2,
                (rest_min + rest_max) / 2))
      in \<lparr>predicted_1rm = py_round predicted 2,
          adjusted_1rm = py_round adjusted 2,
          readiness_factor = py_round readiness 3,
          goal = g,
          training_weight_kg = \<lparr>lowest = py_round training_weight_min 2,
             highest = py_round training_weight_max 2,
             recommended = py_round ((training_weight_min + training_weight_max) / 2) 2\<rparr>,
          reps_selection = \<lparr>lowest = rep_min, highest = rep_max, recommended = recommended_reps\<rparr>,
          sets_selection = \<lparr>lowest = sets_min, highest = sets_max, recommended = recommended_sets\<rparr>,
          rest_selection = \<lparr>lowest = rest_min, highest = rest_max, recommended = recommended_rest\<rparr>,
          rules_description = description rules,
          rules_target_suitability_range = target_suitability_range rules\<rparr>)"


section \<open>Strings: split, strip, lower, float\<close>

text \<open>
  Python's \<open>s.split(c)\<close> for a one-character separator: the result is never
  empty, and an empty piece is kept.
\<close>

fun split_on :: "char \<Rightarrow> string \<Rightarrow> string list" where
  "split_on c [] = [[]]"
| "split_on c (x # xs) =
     (if x = c then [] # split_on c xs
      else (case split_on c xs of
              [] \<Rightarrow> [[x]]
            | y # ys \<Rightarrow> (x # y) # ys))"

text \<open>
  \<open>str.strip()\<close> removes the characters for which \<open>str.isspace\<close> holds; among
  the first 256 code points these are 9 to 13, 28 to 32, 133 and 160.
\<close>

definition is_space :: "char \<Rightarrow> bool" where
  "is_space c = (let n = (of_char c :: nat)
                 in (9 \<le> n \<and> n \<le> 13) \<or> (28 \<le> n \<and> n \<le> 32) \<or> n = 133 \<or> n = 160)"

definition strip :: "string \<Rightarrow> string" where
  "strip s = rev (dropWhile is_space (rev (dropWhile is_space s)))"

text \<open>\<open>str.lower()\<close> on ASCII letters; other characters are left as they are.\<close>

definition lower_char :: "char \<Rightarrow> char" where
  "lower_char c =
     (case map_of (zip ''ABCDEFGHIJKLMNOPQRSTUVWXYZ'' ''abcdefghijklmnopqrstuvwxyz'') c of
        None \<Rightarrow> c
      | Some d \<Rightarrow> d)"

definition lower :: "string \<Rightarrow> string" where
  "lower s = map lower_char s"

text \<open>
  \<open>float(s)\<close> on a string either returns a number or raises ValueError.  The
  functions below take the reader as a parameter \<open>pf\<close>, \<open>None\<close> standing for
  ValueError.  \<open>decimal_float\<close> is \<open>float\<close> on the plain decimal literals:
  optional surrounding whitespace, an optional sign, digits with an optional
  fraction.  Exponents and underscores, which \<open>float\<close> also accepts, are outside
  it; the concrete examples use plain literals only.  The whitespace that
  \<open>float\<close> removes is narrower than that of \<open>str.strip\<close>: the code points 28
  to 31 stay.
\<close>

definition is_float_space :: "char \<Rightarrow> bool" where
  "is_float_space c = (let n = (of_char c :: nat)
                       in (9 \<le> n \<and> n \<le> 13) \<or> n = 32 \<or> n = 133 \<or> n = 160)"

definition float_strip :: "string \<Rightarrow> string" where
  "float_strip s = rev (dropWhile is_float_space (rev (dropWhile is_float_space s)))"

definition is_digit :: "char \<Rightarrow> bool" where
  "is_digit c = (let n = (of_char c :: nat) in 48 \<le> n \<and> n \<le> 57)"

definition digits_value :: "string \<Rightarrow> nat" where
  "digits_value ds = foldl (\<lambda>a c. 10 * a + (of_char c - 48)) 0 ds"

definition unsigned_decimal :: "string \<Rightarrow> real option" where
  "unsigned_decimal s =
     (let ip = takeWhile is_digit s; rest = dropWhile is_digit s
      in case rest of
           [] \<Rightarrow> if ip = [] then None else Some (real (digits_value ip))
         | c # fp \<Rightarrow>
             if c = CHR ''.'' \<and> list_all is_digit fp \<and> \<not> (ip = [] \<and> fp = [])
             then Some (real (digits_value ip) + real (digits_value fp) / 10 ^ length fp)
             else None)"

definition decimal_float :: "string \<Rightarrow> real option" where
  "decimal_float s =
     (case float_strip s of
        [] \<Rightarrow> None
      | c # cs \<Rightarrow>
          if c = CHR ''-'' then map_option uminus (unsigned_decimal cs)
          else if c = CHR ''+'' then unsigned_decimal cs
          else unsigned_decimal (c # cs))"

text \<open>
  \<open>ieee_float\<close> adds the spellings of the special values that \<open>float\<close>
  accepts: \<open>inf\<close>, \<open>infinity\<close> and \<open>nan\<close> in any case, with an optional sign.
\<close>

definition ieee_float :: "string \<Rightarrow> py_float option" where
  "ieee_float s =
     (let t = lower (float_strip s);
          negative = (t \<noteq> [] \<and> hd t = CHR ''-'');
          body = (if t \<noteq> [] \<and> (hd t = CHR ''-'' \<or> hd t = CHR ''+'') then tl t else t)
      in if body = ''inf'' \<or> body = ''infinity'' then Some (if negative then NegInf else PosInf)
         else if body = ''nan'' then Some NaN
         else map_option Finite (decimal_float s))"


section \<open>Workout strings\<close>

datatype py_error = ValueError

text \<open>
  An exercise is the tuple \<open>(reps, weight, sets)\<close>.  The functions of this and
  the next sections are written for any number type; \<open>float\<close> is the
  parameter \<open>pf\<close>, of type \<open>string \<Rightarrow> real option\<close> for the reading on finite
  floats and \<open>string \<Rightarrow> py_float option\<close> for the reading with the special
  values.
\<close>

type_synonym 'a exercise = "'a \<times> 'a \<times> 'a"

text \<open>
  Both \<open>_parse_workout_data\<close> (data\_cleaning\_v4.py) and
  \<open>process_exercise_data\<close> (two\_branch\_model\_v4.py) read a segment with the
  same statements: strip, split on \<open>x\<close>, and with at least two parts convert
  the first two, and the third when there is one, with \<open>float\<close>.  A failed
  conversion raises ValueError; a segment with fewer than two parts is passed
  over.
\<close>

definition read_segment :: "(string \<Rightarrow> 'a option) \<Rightarrow> string
    \<Rightarrow> py_error + ('a::{zero,numeral,inverse,power,ord}) exercise option" where
  "read_segment pf seg =
     (let parts = split_on CHR ''x'' (strip seg)
      in if length parts \<ge> 2 then
           (case pf (parts ! 0) of
              None \<Rightarrow> Inl ValueError
            | Some reps \<Rightarrow>
                (case pf (parts ! 1) of
                   None \<Rightarrow> Inl ValueError
                 | Some weight \<Rightarrow>
                     if length parts > 2 then
                       (case pf (parts ! 2) of
                          None \<Rightarrow> Inl ValueError
                        | Some sets \<Rightarrow> Inr (Some (reps, weight, sets)))
                     else Inr (Some (reps, weight, 1))))
         else Inr None)"

subsection \<open>data\_cleaning\_v4.py: \_parse\_workout\_data\<close>

text \<open>
  The \<open>try\<close> encloses the whole loop: an exception ends the loop, the handler
  prints a warning, and the exercises appended so far are returned.  The second
  component records the exception that was caught.
\<close>

fun parse_loop :: "(string \<Rightarrow> 'a option) \<Rightarrow> string list \<Rightarrow> 'a exercise list
    \<Rightarrow> ('a::{zero,numeral,inverse,power,ord}) exercise list \<times> py_error option" where
  "parse_loop pf [] exercises = (exercises, None)"
| "parse_loop pf (exercise_set # rest) exercises =
     (case read_segment pf exercise_set of
        Inl e \<Rightarrow> (exercises, Some e)
      | Inr None \<Rightarrow> parse_loop pf rest exercises
      | Inr (Some (reps, weight, sets)) \<Rightarrow>
          if reps > 0 \<and> weight > 0 \<and> sets > 0
          then parse_loop pf rest (exercises @ [(reps, weight, sets)])
          else parse_loop pf rest exercises)"

definition parse_workout_data :: "(string \<Rightarrow> 'a option) \<Rightarrow> string
    \<Rightarrow> ('a::{zero,numeral,inverse,power,ord}) exercise list" where
  "parse_workout_data pf workout_str = fst (parse_loop pf (split_on CHR ''|'' workout_str) [])"

subsection \<open>two\_branch\_model\_v4.py: IntensityCoefficientsCalculator\<close>

definition calculate_resistance_intensity :: "'a \<Rightarrow> 'a \<Rightarrow> 'a \<Rightarrow> ('a::{zero,numeral,inverse,power,ord})" where
  "calculate_resistance_intensity weight reps user_1rm =
     (if user_1rm \<le> 0 \<or> weight \<le> 0 \<or> reps \<le> 0 then 0.0
      else (weight * reps) / (user_1rm * 10))"

definition calculate_cardio_intensity :: "'a \<Rightarrow> 'a \<Rightarrow> 'a \<Rightarrow> ('a::{zero,numeral,inverse,power,ord})" where
  "calculate_cardio_intensity distance time user_max_pace =
     (if user_max_pace \<le> 0 \<or> time \<le> 0 \<or> distance \<le> 0 then 0.0
      else distance / (time * user_max_pace))"

definition calculate_volume_load :: "'a \<Rightarrow> 'a \<Rightarrow> 'a \<Rightarrow> 'a \<Rightarrow> ('a::{zero,numeral,inverse,power,ord})" where
  "calculate_volume_load weight reps sets max_volume =
     (let max_volume = (if max_volume \<le> 0 then 10000.0 else max_volume)
      in (weight * reps * sets) / max_volume)"

definition calculate_tempo_factor :: "'a \<Rightarrow> 'a \<Rightarrow> 'a \<Rightarrow> ('a::{zero,numeral,inverse,power,ord})" where
  "calculate_tempo_factor eccentric concentric isometric =
     (let total_time = eccentric + concentric + isometric
      in if total_time \<le> 0 then 1.0
         else (let tempo_score = 4.0 / total_time in np_clip tempo_score 0.5 1.5))"

record 'a coefficients =
  resistance_intensity :: 'a
  cardio_intensity :: 'a
  volume_load :: 'a
  rest_density :: 'a
  tempo_factor :: 'a

text \<open>
  The loop state is \<open>(total_volume, total_resistance, total_cardio,
  total_work_time, total_rest_time)\<close>.  An exception leaves the loop; the
  caller's handler then returns the default coefficients.
\<close>

type_synonym 'a totals = "'a \<times> 'a \<times> 'a \<times> 'a \<times> 'a"

fun process_loop :: "(string \<Rightarrow> 'a option) \<Rightarrow> 'a \<Rightarrow> 'a \<Rightarrow> string list \<Rightarrow> 'a totals
    \<Rightarrow> py_error + ('a::{zero,numeral,inverse,power,ord}) totals" where
  "process_loop pf user_1rm user_max_pace [] t = Inr t"
| "process_loop pf user_1rm user_max_pace (exercise # rest)
       (total_volume, total_resistance, total_cardio, total_work_time, total_rest_time) =
     (case read_segment pf exercise of
        Inl e \<Rightarrow> Inl e
      | Inr None \<Rightarrow>
          process_loop pf user_1rm user_max_pace rest
            (total_volume, total_resistance, total_cardio, total_work_time, total_rest_time)
      | Inr (Some (reps, weight, sets)) \<Rightarrow>
          if reps \<le> 0 \<or> weight \<le> 0 \<or> sets \<le> 0 then
            process_loop pf user_1rm user_max_pace rest
              (total_volume, total_resistance, total_cardio, total_work_time, total_rest_time)
          else
            (let resistance_int = calculate_resistance_intensity weight reps user_1rm;
                 cardio_int = calculate_cardio_intensity weight (reps * 4) user_max_pace;
                 volume = calculate_volume_load weight reps sets 10000;
                 work_time = reps * sets * 4;
                 rest_time = sets * 120
             in process_loop pf user_1rm user_max_pace rest
                  (total_volume + volume,
                   total_resistance + resistance_int * sets,
                   total_cardio + cardio_int * sets,
                   total_work_time + work_time,
                   total_rest_time + rest_time)))"

definition default_coefficients :: "('a::{zero,numeral,inverse,power,ord}) coefficients" where
  "default_coefficients =
     \<lparr>resistance_intensity = 0.0, cardio_intensity = 0.0, volume_load = 0.0,
      rest_density = 0.3, tempo_factor = 1.0\<rparr>"

text \<open>
  The workout string is \<open>None\<close> when \<open>pd.isna\<close> holds of it (a missing cell).
\<close>

definition process_exercise_data :: "(string \<Rightarrow> 'a option) \<Rightarrow> string option \<Rightarrow> 'a \<Rightarrow> 'a
    \<Rightarrow> ('a::{zero,numeral,inverse,power,ord}) coefficients" where
  "process_exercise_data pf workout_data_str user_1rm user_max_pace =
     (case workout_data_str of
        None \<Rightarrow> default_coefficients
      | Some s \<Rightarrow>
          if s = [] then default_coefficients
          else
            (let exercises = split_on CHR ''|'' s
             in case process_loop pf user_1rm user_max_pace exercises (0, 0, 0, 0, 0) of
                  Inl e \<Rightarrow> default_coefficients
                | Inr (total_volume, total_resistance, total_cardio, total_work_time,
                       total_rest_time) \<Rightarrow>
                    if exercises \<noteq> [] \<and> total_work_time > 0 then
                      \<lparr>resistance_intensity =
                         np_clip (total_resistance / from_nat (length exercises)) 0.0 2.0,
                       cardio_intensity =
                         np_clip (total_cardio / from_nat (length exercises)) 0.0 1.5,
                       volume_load = np_clip (total_volume / 10000) 0.0 1.0,
                       rest_density =
                         np_clip (total_rest_time / (total_work_time + total_rest_time)) 0.0 1.0,
                       tempo_factor = calculate_tempo_factor 2.0 1.0 0.0\<rparr>
                    else default_coefficients))"


section \<open>The parser as the specification describes it\<close>

text \<open>
  The record of one segment, read off the specification: the segment is split
  on \<open>x\<close>; two numeric parts give reps and weight with sets 1, three or more
  parts give reps, weight and sets from the first three; the record counts only
  when every field is positive.
\<close>

definition segment_record :: "(string \<Rightarrow> 'a option) \<Rightarrow> string \<Rightarrow> ('a::{zero,numeral,inverse,power,ord}) exercise option" where
  "segment_record pf seg =
     (case map pf (split_on CHR ''x'' (strip seg)) of
        [Some reps, Some weight] \<Rightarrow>
          if reps > 0 \<and> weight > 0 then Some (reps, weight, 1) else None
      | Some reps # Some weight # Some sets # others \<Rightarrow>
          if reps > 0 \<and> weight > 0 \<and> sets > 0 then Some (reps, weight, sets) else None
      | _ \<Rightarrow> None)"

text \<open>
  A segment is malformed when it has at least two parts and one of the parts
  that are read (the first three at most) is not a number.
\<close>

definition malformed :: "(string \<Rightarrow> ('a::{zero,numeral,inverse,power,ord}) option) \<Rightarrow> string \<Rightarrow> bool" where
  "malformed pf seg =
     (let parts = split_on CHR ''x'' (strip seg)
      in length parts \<ge> 2 \<and> list_ex (\<lambda>p. pf p = None) (take 3 parts))"

definition surviving_records :: "(string \<Rightarrow> 'a option) \<Rightarrow> string list
    \<Rightarrow> ('a::{zero,numeral,inverse,power,ord}) exercise list" where
  "surviving_records pf segs = List.map_filter (segment_record pf) segs"



section \<open>data\_cleaning\_v4.py: calculate\_intensity\_coefficients\<close>

text \<open>
  A data-frame row: the five coefficient columns, \<open>metabolic_stress\<close>, the
  workout string (\<open>None\<close> for a missing cell) and the \<open>estimated_1rm\<close> cell
  (\<open>None\<close> when the frame has no such column).
\<close>

record 'a row = "'a coefficients" +
  metabolic_stress :: 'a
  workout_data :: "string option"
  estimated_1rm :: "'a option"

text \<open>
  The inner loop over the parsed exercises of one row.  The state is
  \<open>(total_volume, total_resistance_intensity, total_cardio_intensity,
  total_rest_time, total_exercise_time)\<close>.
\<close>

fun accumulate_exercises :: "'a option \<Rightarrow> 'a exercise list \<Rightarrow> 'a totals
    \<Rightarrow> ('a::{zero,numeral,inverse,power,ord}) totals" where
  "accumulate_exercises row_1rm [] t = t"
| "accumulate_exercises row_1rm ((reps, weight, sets) # rest)
       (total_volume, total_resistance_intensity, total_cardio_intensity,
        total_rest_time, total_exercise_time) =
     (if reps \<le> 0 \<or> weight \<le> 0 \<or> sets \<le> 0 then
        accumulate_exercises row_1rm rest
          (total_volume, total_resistance_intensity, total_cardio_intensity,
           total_rest_time, total_exercise_time)
      else
        (let user_1rm = (case row_1rm of None \<Rightarrow> weight * 1.5 | Some v \<Rightarrow> v);
             user_1rm = (if user_1rm \<le> 0 then weight * 1.5 else user_1rm);
             resistance_int = (weight * reps) / (user_1rm * 10);
             volume = weight * reps * sets;
             cardio_int = (reps / 30.0) * (1.0 / py_max 1 sets);
             exercise_time = reps * sets * 4;
             rest_time = sets * 120
         in accumulate_exercises row_1rm rest
              (total_volume + volume,
               total_resistance_intensity + resistance_int * sets,
               total_cardio_intensity + cardio_int * sets,
               total_rest_time + rest_time,
               total_exercise_time + exercise_time)))"

text \<open>
  The body of the loop over the rows.  \<open>tempo_draw\<close> is the value drawn by
  \<open>np.random.normal(1.0, 0.1)\<close> for this row.
\<close>

definition update_row :: "(string \<Rightarrow> 'a option) \<Rightarrow> 'a \<Rightarrow> 'a row \<Rightarrow> ('a::{zero,numeral,inverse,power,ord}) row" where
  "update_row pf tempo_draw r =
     (case workout_data r of
        None \<Rightarrow> r
      | Some wd \<Rightarrow>
          if wd = [] then r
          else
            (let parsed_exercises = parse_workout_data pf wd
             in if parsed_exercises = [] then r
                else
                  (let (total_volume, total_resistance_intensity, total_cardio_intensity,
                        total_rest_time, total_exercise_time) =
                         accumulate_exercises (estimated_1rm r) parsed_exercises (0, 0, 0, 0, 0);
                       n = from_nat (max 1 (length parsed_exercises));
                       r1 = (if total_volume > 0 then
                               r\<lparr>volume_load := py_min 1.0 (total_volume / 10000),
                                 resistance_intensity := py_min 2.0 (total_resistance_intensity / n),
                                 cardio_intensity := py_min 1.5 (total_cardio_intensity / n)\<rparr>
                             else r);
                       r2 = (if total_exercise_time > 0 then
                               r1\<lparr>rest_density :=
                                    total_rest_time / (total_exercise_time + total_rest_time)\<rparr>
                             else r1);
                       r3 = r2\<lparr>tempo_factor := np_clip tempo_draw 0.5 1.5\<rparr>
                   in r3\<lparr>metabolic_stress :=
                          resistance_intensity r3 * 0.6 + cardio_intensity r3 * 0.4\<rparr>)))"

text \<open>A coefficient column that the frame does not have yet is created as 0.0.\<close>

definition init_columns :: "string list \<Rightarrow> 'a row \<Rightarrow> ('a::{zero,numeral,inverse,power,ord}) row" where
  "init_columns columns r =
     r\<lparr>resistance_intensity :=
         (if ''resistance_intensity'' \<in> set columns then resistance_intensity r else 0.0),
       cardio_intensity :=
         (if ''cardio_intensity'' \<in> set columns then cardio_intensity r else 0.0),
       volume_load := (if ''volume_load'' \<in> set columns then volume_load r else 0.0),
       rest_density := (if ''rest_density'' \<in> set columns then rest_density r else 0.0),
       tempo_factor := (if ''tempo_factor'' \<in> set columns then tempo_factor r else 0.0),
       metabolic_stress :=
         (if ''metabolic_stress'' \<in> set columns then metabolic_stress r else 0.0)\<rparr>"

text \<open>
  \<open>INTENSITY_RANGES\<close>, and \<open>_validate_intensity_coefficients\<close>: for each
  column the outliers are counted and the column is clipped.  The counts are
  returned next to the frame (the source prints them).
\<close>

definition resistance_intensity_range :: "'a \<times> ('a::{zero,numeral,inverse,power,ord})" where
  "resistance_intensity_range = (0.1, 2.0)"

definition cardio_intensity_range :: "'a \<times> ('a::{zero,numeral,inverse,power,ord})" where
  "cardio_intensity_range = (0.0, 1.5)"

definition volume_load_range :: "'a \<times> ('a::{zero,numeral,inverse,power,ord})" where
  "volume_load_range = (0.0, 1.0)"

definition rest_density_range :: "'a \<times> ('a::{zero,numeral,inverse,power,ord})" where
  "rest_density_range = (0.0, 1.0)"

definition tempo_factor_range :: "'a \<times> ('a::{zero,numeral,inverse,power,ord})" where
  "tempo_factor_range = (0.5, 1.5)"

definition outliers_before :: "('a row \<Rightarrow> 'a) \<Rightarrow> 'a \<times> 'a \<Rightarrow> ('a::{zero,numeral,inverse,power,ord}) row list \<Rightarrow> nat" where
  "outliers_before col bounds data =
     length (filter (\<lambda>r. col r < fst bounds \<or> col r > snd bounds) data)"

definition validate_row :: "'a row \<Rightarrow> ('a::{zero,numeral,inverse,power,ord}) row" where
  "validate_row r =
     r\<lparr>resistance_intensity :=
         np_clip (resistance_intensity r) (fst resistance_intensity_range)
           (snd resistance_intensity_range),
       cardio_intensity :=
         np_clip (cardio_intensity r) (fst cardio_intensity_range) (snd cardio_intensity_range),
       volume_load := np_clip (volume_load r) (fst volume_load_range) (snd volume_load_range),
       rest_density := np_clip (rest_density r) (fst rest_density_range) (snd rest_density_range),
       tempo_factor := np_clip (tempo_factor r) (fst tempo_factor_range) (snd tempo_factor_range)\<rparr>"

definition validate_intensity_coefficients :: "'a row list \<Rightarrow> nat list \<times> ('a::{zero,numeral,inverse,power,ord}) row list" where
  "validate_intensity_coefficients data =
     ([outliers_before resistance_intensity resistance_intensity_range data,
       outliers_before cardio_intensity cardio_intensity_range data,
       outliers_before volume_load volume_load_range data,
       outliers_before rest_density rest_density_range data,
       outliers_before tempo_factor tempo_factor_range data],
      map validate_row data)"

definition calculate_intensity_coefficients ::
    "(string \<Rightarrow> 'a option) \<Rightarrow> (nat \<Rightarrow> 'a) \<Rightarrow> string list \<Rightarrow> 'a row list
     \<Rightarrow> ('a::{zero,numeral,inverse,power,ord}) row list" where
  "calculate_intensity_coefficients pf draws columns data =
     (let data = map (init_columns columns) data;
          data = map (\<lambda>idx. update_row pf (draws idx) (data ! idx)) [0..<length data]
      in snd (validate_intensity_coefficients data))"


text \<open>
  The closed intervals that the specification documents for the five
  coefficients.
\<close>

definition within_documented_ranges :: "('a::{zero,numeral,inverse,power,ord}, 'b) coefficients_scheme \<Rightarrow> bool" where
  "within_documented_ranges c \<longleftrightarrow>
     0 \<le> resistance_intensity c \<and> resistance_intensity c \<le> 2
     \<and> 0 \<le> cardio_intensity c \<and> cardio_intensity c \<le> 1.5
     \<and> 0 \<le> volume_load c \<and> volume_load c \<le> 1
     \<and> 0 \<le> rest_density c \<and> rest_density c \<le> 1
     \<and> 0.5 \<le> tempo_factor c \<and> tempo_factor c \<le> 1.5"

text \<open>A row of a fresh frame, and a constant sequence of tempo draws, for the examples.\<close>

definition example_row :: "string \<Rightarrow> 'a \<Rightarrow> ('a::{zero,numeral,inverse,power,ord}) row" where
  "example_row s u = \<lparr>resistance_intensity = 0, cardio_intensity = 0, volume_load = 0,
     rest_density = 0, tempo_factor = 0, metabolic_stress = 0,
     workout_data = Some s, estimated_1rm = Some u\<rparr>"

definition constant_draws :: "'a \<Rightarrow> nat \<Rightarrow> 'a" where
  "constant_draws d idx = d"


section \<open>Subjective scales\<close>

subsection \<open>data\_cleaning\_v4.py: \_map\_sepa\_to\_numeric\<close>

text \<open>
  A cell value is missing (\<open>pd.isna\<close> holds), a number, or a string.
\<close>

datatype py_value = Missing | Num py_float | Str string

definition mood_mapping :: "(string \<times> int) list" where
  "mood_mapping = [(''Very Bad'', 1), (''Bad'', 2), (''Neutral'', 3), (''Good'', 4),
     (''Very Good'', 5), (''Excellent'', 5)]"

definition fatigue_mapping :: "(string \<times> int) list" where
  "fatigue_mapping = [(''Very Low'', 1), (''Low'', 2), (''Medium'', 3), (''High'', 4),
     (''Very High'', 5)]"

definition effort_mapping :: "(string \<times> int) list" where
  "effort_mapping = [(''Very Low'', 1), (''Low'', 2), (''Medium'', 3), (''High'', 4),
     (''Very High'', 5)]"

text \<open>
  The \<open>try\<close> block around \<open>int(float(value))\<close>.  The argument is the result
  of \<open>float(value)\<close>, \<open>None\<close> when that raised ValueError.  \<open>int\<close> raises
  ValueError on NaN, which the handler catches like the one of \<open>float\<close>, and
  OverflowError on an infinity, which the handler for \<open>(ValueError, TypeError)\<close>
  does not catch.  \<open>Inr None\<close> is the fall-through after the block.
\<close>

datatype scale_error = OverflowError

definition numeric_in_scale :: "py_float option \<Rightarrow> scale_error + int option" where
  "numeric_in_scale converted =
     (case converted of
        None \<Rightarrow> Inr None
      | Some NaN \<Rightarrow> Inr None
      | Some PosInf \<Rightarrow> Inl OverflowError
      | Some NegInf \<Rightarrow> Inl OverflowError
      | Some (Finite x) \<Rightarrow>
          (let num_val = py_int x
           in if 1 \<le> num_val \<and> num_val \<le> 5 then Inr (Some num_val) else Inr None))"

text \<open>The loop over \<open>mapping.items()\<close>: the first key equal up to case.\<close>

fun first_ignoring_case :: "(string \<times> int) list \<Rightarrow> string \<Rightarrow> int option" where
  "first_ignoring_case [] value_str = None"
| "first_ignoring_case ((key, val) # rest) value_str =
     (if lower key = lower value_str then Some val else first_ignoring_case rest value_str)"

text \<open>\<open>pd.isna\<close> holds of a missing cell and of the float NaN.\<close>

fun map_sepa_to_numeric :: "(string \<Rightarrow> py_float option) \<Rightarrow> py_value \<Rightarrow> (string \<times> int) list \<Rightarrow> int
    \<Rightarrow> scale_error + int" where
  "map_sepa_to_numeric pf Missing mapping dflt = Inr dflt"
| "map_sepa_to_numeric pf (Num x) mapping dflt =
     (if x = NaN then Inr dflt
      else case numeric_in_scale (Some x) of
             Inl e \<Rightarrow> Inl e
           | Inr (Some num_val) \<Rightarrow> Inr num_val
           | Inr None \<Rightarrow> Inr dflt)"
| "map_sepa_to_numeric pf (Str s) mapping dflt =
     (case numeric_in_scale (pf s) of
        Inl e \<Rightarrow> Inl e
      | Inr (Some num_val) \<Rightarrow> Inr num_val
      | Inr None \<Rightarrow>
          (let value_str = strip s
           in case map_of mapping value_str of
                Some val \<Rightarrow> Inr val
              | None \<Rightarrow>
                  (case first_ignoring_case mapping value_str of
                     Some val \<Rightarrow> Inr val
                   | None \<Rightarrow> Inr dflt)))"

subsection \<open>recommendation\_v4.py: \_map\_sepa\_to\_numeric\<close>

definition service_mapping :: "(string \<times> int) list" where
  "service_mapping =
     [(''very bad'', 1), (''bad'', 2), (''neutral'', 3), (''good'', 4), (''very good'', 5),
      (''excellent'', 5),
      (''very low'', 1), (''low'', 2), (''medium'', 3), (''high'', 4), (''very high'', 5),
      (''beginner'', 1), (''intermediate'', 2), (''advanced'', 3), (''pro'', 4), (''expert'', 4),
      (''male'', 1), (''female'', 0), (''other'', 0)]"

definition map_sepa_to_numeric_service :: "string \<Rightarrow> int" where
  "map_sepa_to_numeric_service v =
     (case map_of service_mapping (lower v) of None \<Rightarrow> 3 | Some val \<Rightarrow> val)"

text \<open>
  The lookup as the specification words it: the entry whose key equals the
  value when case is ignored.
\<close>

definition lookup_ignoring_case :: "(string \<times> int) list \<Rightarrow> string \<Rightarrow> int option" where
  "lookup_ignoring_case mapping v = map_of (map (\<lambda>(k, x). (lower k, x)) mapping) (lower v)"


section \<open>recommendation\_v4.py: recommend\_v4\<close>

text \<open>
  A candidate exercise carries the keys \<open>id\<close>, \<open>name\<close> and \<open>met_value\<close>;
  both the request's candidates and the built-in ones always have \<open>id\<close> and
  \<open>name\<close>, so the defaults of \<open>ex_dict.get\<close> are never taken.  Of the request
  the function itself reads the candidates, \<open>top_k\<close> and the preferred duration;
  the other fields reach the model only.
\<close>

record candidate =
  candidate_id :: string
  candidate_name :: string
  met_value :: real

record request =
  available_exercises :: "candidate list option"
  top_k :: int
  duration_preference_min :: "int option"

text \<open>
  The \<open>reason\<close> text embeds \<open>int(score * 100)\<close>; the item records that integer.
\<close>

record recommendation_item =
  exercise_id :: string
  exercise_name :: string
  predicted_rpe :: real
  suitability_score :: real
  reason_percent :: int
  suggested_duration :: "int option"

record response =
  recommendations :: "recommendation_item list"
  session_id :: string
  model_version :: string

datatype service_error = ModelNotLoaded | IndexError | NameError

definition mock_candidates :: "candidate list" where
  "mock_candidates =
     [\<lparr>candidate_id = ''ex1'', candidate_name = ''Barbell Squat'', met_value = 6.0\<rparr>,
      \<lparr>candidate_id = ''ex2'', candidate_name = ''Running'', met_value = 8.0\<rparr>,
      \<lparr>candidate_id = ''ex3'', candidate_name = ''Yoga'', met_value = 3.0\<rparr>,
      \<lparr>candidate_id = ''ex4'', candidate_name = ''HIIT'', met_value = 10.0\<rparr>,
      \<lparr>candidate_id = ''ex5'', candidate_name = ''Bench Press'', met_value = 5.0\<rparr>]"

definition candidates_of :: "'a request_scheme \<Rightarrow> candidate list" where
  "candidates_of req =
     (let candidates = (case available_exercises req of None \<Rightarrow> [] | Some cs \<Rightarrow> cs)
      in if candidates = [] then mock_candidates else candidates)"

definition make_item :: "'a request_scheme \<Rightarrow> candidate \<Rightarrow> real \<Rightarrow> real \<Rightarrow> recommendation_item" where
  "make_item req ex rpe score =
     \<lparr>exercise_id = candidate_id ex,
      exercise_name = candidate_name ex,
      predicted_rpe = py_round rpe 1,
      suitability_score = py_round score 3,
      reason_percent = py_int (score * 100),
      suggested_duration = duration_preference_min req\<rparr>"

text \<open>
  The loop over \<open>enumerate(candidates)\<close>: the heads of the two value lists are
  the entries at the current index, and reading past the end of either raises
  IndexError.
\<close>

fun process_results :: "'a request_scheme \<Rightarrow> candidate list \<Rightarrow> real list \<Rightarrow> real list
    \<Rightarrow> service_error + recommendation_item list" where
  "process_results req [] intensity_vals suitability_vals = Inr []"
| "process_results req (ex # rest) intensity_vals suitability_vals =
     (case suitability_vals of
        [] \<Rightarrow> Inl IndexError
      | score # suitability_rest \<Rightarrow>
          (case intensity_vals of
             [] \<Rightarrow> Inl IndexError
           | rpe # intensity_rest \<Rightarrow>
               (case process_results req rest intensity_rest suitability_rest of
                  Inl e \<Rightarrow> Inl e
                | Inr later \<Rightarrow>
                    if score > 0.4 then Inr (make_item req ex rpe score # later)
                    else Inr later)))"

text \<open>\<open>xs[:k]\<close>: a negative \<open>k\<close> counts from the end.\<close>

definition slice_upto :: "'a list \<Rightarrow> int \<Rightarrow> 'a list" where
  "slice_upto xs k = (if 0 \<le> k then take (nat k) xs else take (length xs - nat (- k)) xs)"

text \<open>
  The names the module has bound when it reaches line 174: the imports of lines
  1 to 10, the module variables and the three functions defined before.  The
  module imports \<open>RecommendRequestV4\<close> and \<open>RecommendationItem\<close> from the schema
  module, and not \<open>RecommendResponseV4\<close>; nothing else binds that name.
  Evaluating a name that is not bound raises NameError.
\<close>

definition module_names :: "string list" where
  "module_names =
     [''torch'', ''pd'', ''np'', ''pickle'', ''json'', ''os'', ''logging'',
      ''List'', ''Dict'', ''Any'', ''TwoBranchRecommendationModel'',
      ''RecommendRequestV4'', ''RecommendationItem'',
      ''logger'', ''MODEL_V4'', ''SCALER_V4'', ''METADATA_V4'', ''DEVICE'', ''FEATURE_COLUMNS'',
      ''load_model_v4_artifacts'', ''_map_sepa_to_numeric'', ''_prepare_input_vector'']"

definition load_name :: "string \<Rightarrow> service_error + unit" where
  "load_name n = (if n \<in> set module_names then Inr () else Inl NameError)"

text \<open>
  The \<open>def\<close> statement of line 174 evaluates its two annotations when the
  module is imported.
\<close>

definition define_recommend_v4 :: "service_error + unit" where
  "define_recommend_v4 =
     (case load_name ''RecommendRequestV4'' of
        Inl e \<Rightarrow> Inl e
      | Inr u \<Rightarrow> load_name ''RecommendResponseV4'')"

text \<open>
  The body of the function, as it runs when the annotations are not evaluated
  at the \<open>def\<close>.  The loaded model with its scaler is a parameter:
  \<open>None\<close> when \<open>MODEL_V4\<close> is not loaded, otherwise the function from the
  request and the candidates to the flattened intensity and suitability
  predictions.  \<open>list.sort\<close> with \<open>reverse=True\<close> is stable, as is \<open>sort_key\<close> on
  the negated key.  The \<open>return\<close> statement evaluates the name
  \<open>RecommendResponseV4\<close> before it builds the response.
\<close>

definition recommend_v4 ::
    "('a request_scheme \<Rightarrow> candidate list \<Rightarrow> real list \<times> real list) option
     \<Rightarrow> 'a request_scheme \<Rightarrow> service_error + response" where
  "recommend_v4 model req =
     (case model of
        None \<Rightarrow> Inl ModelNotLoaded
      | Some predict \<Rightarrow>
          (let candidates = candidates_of req;
               (intensity_vals, suitability_vals) = predict req candidates
           in case process_results req candidates intensity_vals suitability_vals of
                Inl e \<Rightarrow> Inl e
              | Inr found \<Rightarrow>
                  (let sorted_items = sort_key (\<lambda>x. - suitability_score x) found
                   in case load_name ''RecommendResponseV4'' of
                        Inl e \<Rightarrow> Inl e
                      | Inr u \<Rightarrow>
                          Inr \<lparr>recommendations = slice_upto sorted_items (top_k req),
                               session_id = ''sess_v4_demo'',
                               model_version = ''v4.0.0''\<rparr>)))"

text \<open>A model for the examples: the suitability of a candidate is a tenth of its MET value.\<close>

definition example_predict :: "request \<Rightarrow> candidate list \<Rightarrow> real list \<times> real list" where
  "example_predict req cs = (map met_value cs, map (\<lambda>c. met_value c / 10) cs)"

definition example_request :: "int \<Rightarrow> request" where
  "example_request k =
     \<lparr>available_exercises = Some
        [\<lparr>candidate_id = ''a'', candidate_name = ''Stretching'', met_value = 4\<rparr>,
         \<lparr>candidate_id = ''b'', candidate_name = ''Rowing'', met_value = 9\<rparr>,
         \<lparr>candidate_id = ''c'', candidate_name = ''Walking'', met_value = 5\<rparr>],
      top_k = k, duration_preference_min = Some 60\<rparr>"


section \<open>Theorems\<close>

lemma np_clip_real: "np_clip (x::real) lo hi = min (max x lo) hi"
  by (simp add: np_clip_def np_minimum_def np_maximum_def min_def max_def)

lemma from_nat_real [simp]: "(from_nat n :: real) = real n"
  by (induction n) simp_all

lemma py_min_real [simp]: "py_min (a::real) b = min a b"
  by (simp add: py_min_def min_def)

lemma py_max_real [simp]: "py_max (a::real) b = max a b"
  by (simp add: py_max_def max_def)

lemma np_clip_clamp: "lo \<le> hi \<Longrightarrow> np_clip x lo hi = clamp lo hi x"
  by (simp add: np_clip_real clamp_def min_def max_def)

text \<open>
  C4.  The classifier is a total function that sends a score of at least 0.95 to
  Perfect Fit with the LOCK-IN action, a score in [0.85, 0.95) to Very Good with
  RECOMMEND, [0.75, 0.85) to Good with KEEP, [0.6, 0.75) to Moderate with ADJUST,
  [0.4, 0.6) to Low with SUPPORT and a score below 0.4 to Ineffective with REMOVE.
  Two scores have the same category exactly when they have the same action.  The
  score 0.76 is Good/KEEP, and 0.4 itself is Low/SUPPORT.
\<close>

theorem classify_bands:
  fixes s :: real
  shows "(0.95 \<le> s \<longrightarrow> classify s = (''Perfect Fit'', LOCK_IN))
       \<and> (0.85 \<le> s \<and> s < 0.95 \<longrightarrow> classify s = (''Very Good'', RECOMMEND))
       \<and> (0.75 \<le> s \<and> s < 0.85 \<longrightarrow> classify s = (''Good'', KEEP))
       \<and> (0.6 \<le> s \<and> s < 0.75 \<longrightarrow> classify s = (''Moderate'', ADJUST))
       \<and> (0.4 \<le> s \<and> s < 0.6 \<longrightarrow> classify s = (''Low'', SUPPORT))
       \<and> (s < 0.4 \<longrightarrow> classify s = (''Ineffective'', REMOVE))
       \<and> (\<forall>t. fst (classify s) = fst (classify t) \<longleftrightarrow> snd (classify s) = snd (classify t))
       \<and> classify 0.76 = (''Good'', KEEP)
       \<and> classify 0.4 = (''Low'', SUPPORT)"
  by (simp add: classify_def get_score_range_def get_action_recommendation_def)

theorem classify_bands_witness:
  "classify 1 = (''Perfect Fit'', LOCK_IN)
   \<and> classify 0.9 = (''Very Good'', RECOMMEND)
   \<and> classify 0.8 = (''Good'', KEEP)
   \<and> classify 0.7 = (''Moderate'', ADJUST)
   \<and> classify 0.5 = (''Low'', SUPPORT)
   \<and> classify 0 = (''Ineffective'', REMOVE)"
  using classify_bands [of 1] classify_bands [of "0.9"] classify_bands [of "0.8"]
    classify_bands [of "0.7"] classify_bands [of "0.5"] classify_bands [of 0]
  by simp

text \<open>
  C5.  For mood, fatigue and effort among 1, 2, 3, 4, 5 the readiness factor is
  1.0 plus the mood, fatigue and effort adjustments of the rule table, clamped to
  [0.6, 1.3], and so lies in that interval; for mood 5, fatigue 1, effort 3 it is
  1.18.
\<close>

theorem readiness_rule_table:
  assumes "mood \<in> {1, 2, 3, 4, 5}" and "fatigue \<in> {1, 2, 3, 4, 5}" and "effort \<in> {1, 2, 3, 4, 5}"
  shows "calculate_readiness_factor_v4 mood fatigue effort
           = clamp 0.6 1.3 (1.0 + mood_rule mood + fatigue_rule fatigue + effort_rule effort)
       \<and> 0.6 \<le> calculate_readiness_factor_v4 mood fatigue effort
       \<and> calculate_readiness_factor_v4 mood fatigue effort \<le> 1.3
       \<and> calculate_readiness_factor_v4 5 1 3 = 1.18"
proof -
  have eq: "calculate_readiness_factor_v4 mood fatigue effort
           = clamp 0.6 1.3 (1.0 + mood_rule mood + fatigue_rule fatigue + effort_rule effort)"
    by (simp add: calculate_readiness_factor_v4_def Let_def np_clip_clamp
        mood_rule_def fatigue_rule_def effort_rule_def)
  have bounds: "0.6 \<le> clamp 0.6 1.3 x \<and> clamp 0.6 1.3 x \<le> 1.3" for x :: real
    by (simp add: clamp_def)
  have ex: "calculate_readiness_factor_v4 5 1 3 = 1.18"
    by (simp add: calculate_readiness_factor_v4_def Let_def np_clip_real)
  show ?thesis using eq bounds ex by simp
qed

theorem readiness_rule_table_witness:
  "(4::real) \<in> {1, 2, 3, 4, 5} \<and> (3::real) \<in> {1, 2, 3, 4, 5} \<and> (2::real) \<in> {1, 2, 3, 4, 5}
   \<and> calculate_readiness_factor_v4 4 3 2 = 1.1"
  using readiness_rule_table [of 4 3 2]
  by (simp add: mood_rule_def fatigue_rule_def effort_rule_def clamp_def)

lemma select_rules_cases:
  "select_rules g \<in> {(''strength'', strength_rules), (''hypertrophy'', hypertrophy_rules),
     (''endurance'', endurance_rules), (''general_fitness'', general_fitness_rules)}"
  by (simp add: select_rules_def WORKOUT_GOAL_MAPPING_V4_def)

text \<open>
  C6 (amended).  The decoder multiplies the predicted value by the readiness
  factor and scales the goal's intensity-percent range by the product; the
  returned adjusted 1RM and weight bounds are these values rounded to two
  decimals.  Readiness above 1.1 gives 80% of the rep-range midpoint truncated to
  an integer, the maximum sets and the minimum rest; readiness below 0.9 gives
  120% of the midpoint truncated to an integer, the minimum sets and the maximum
  rest; otherwise the midpoint of every range.  An unknown goal is decoded as
  general\_fitness.  For 100, strength, 1.2 the adjusted 1RM is 120, the weight
  range is [102, 114] and the fewer-reps branch gives 8 reps, 5 sets, 3 minutes.
\<close>

theorem decode_branches:
  assumes "select_rules g = (g', rules)"
  shows "adjusted_1rm (decode_intensity_to_workout p g r) = py_round (p * r) 2
       \<and> lowest (training_weight_kg (decode_intensity_to_workout p g r))
           = py_round (p * r * fst (intensity_percent rules)) 2
       \<and> highest (training_weight_kg (decode_intensity_to_workout p g r))
           = py_round (p * r * snd (intensity_percent rules)) 2
       \<and> (r > 1.1 \<longrightarrow>
            recommended (reps_selection (decode_intensity_to_workout p g r))
              = py_int (0.8 * (real_of_int (fst (rep_range rules) + snd (rep_range rules)) / 2))
          \<and> recommended (sets_selection (decode_intensity_to_workout p g r)) = snd (sets_range rules)
          \<and> recommended (rest_selection (decode_intensity_to_workout p g r)) = fst (rest_minutes rules))
       \<and> (r < 0.9 \<longrightarrow>
            recommended (reps_selection (decode_intensity_to_workout p g r))
              = py_int (1.2 * (real_of_int (fst (rep_range rules) + snd (rep_range rules)) / 2))
          \<and> recommended (sets_selection (decode_intensity_to_workout p g r)) = fst (sets_range rules)
          \<and> recommended (rest_selection (decode_intensity_to_workout p g r)) = snd (rest_minutes rules))
       \<and> (0.9 \<le> r \<and> r \<le> 1.1 \<longrightarrow>
            real_of_int (recommended (reps_selection (decode_intensity_to_workout p g r)))
              = real_of_int (fst (rep_range rules) + snd (rep_range rules)) / 2
          \<and> real_of_int (recommended (sets_selection (decode_intensity_to_workout p g r)))
              = real_of_int (fst (sets_range rules) + snd (sets_range rules)) / 2
          \<and> recommended (rest_selection (decode_intensity_to_workout p g r))
              = (fst (rest_minutes rules) + snd (rest_minutes rules)) / 2)
       \<and> (WORKOUT_GOAL_MAPPING_V4 g = None \<longrightarrow>
            decode_intensity_to_workout p g r = decode_intensity_to_workout p ''general_fitness'' r)
       \<and> adjusted_1rm (decode_intensity_to_workout 100 ''strength'' 1.2) = 120
       \<and> training_weight_kg (decode_intensity_to_workout 100 ''strength'' 1.2)
           = \<lparr>lowest = 102, highest = 114, recommended = 108\<rparr>
       \<and> reps_selection (decode_intensity_to_workout 100 ''strength'' 1.2)
           = \<lparr>lowest = 5, highest = 15, recommended = 8\<rparr>
       \<and> recommended (sets_selection (decode_intensity_to_workout 100 ''strength'' 1.2)) = 5
       \<and> recommended (rest_selection (decode_intensity_to_workout 100 ''strength'' 1.2)) = 3"
proof -
  have mid: "real_of_int ((fst (rep_range rules) + snd (rep_range rules)) div 2)
               = real_of_int (fst (rep_range rules) + snd (rep_range rules)) / 2
           \<and> real_of_int ((fst (sets_range rules) + snd (sets_range rules)) div 2)
               = real_of_int (fst (sets_range rules) + snd (sets_range rules)) / 2"
    using select_rules_cases [of g] assms
    by (auto simp: strength_rules_def hypertrophy_rules_def endurance_rules_def
        general_fitness_rules_def)
  have unknown: "WORKOUT_GOAL_MAPPING_V4 g = None \<Longrightarrow>
      select_rules g = select_rules ''general_fitness''"
    by (simp add: select_rules_def WORKOUT_GOAL_MAPPING_V4_def)
  have ex: "select_rules ''strength'' = (''strength'', strength_rules)"
    by (simp add: select_rules_def WORKOUT_GOAL_MAPPING_V4_def)
  show ?thesis
    using assms mid unknown
    by (simp add: decode_intensity_to_workout_def ex Let_def split_beta mult.commute
        strength_rules_def py_round_def round_half_even_def py_int_def)
qed

theorem decode_branches_witness:
  "select_rules ''hypertrophy'' = (''hypertrophy'', hypertrophy_rules)
   \<and> (1.2::real) > 1.1
   \<and> recommended (reps_selection (decode_intensity_to_workout 100 ''hypertrophy'' 1.2)) = 11
   \<and> recommended (sets_selection (decode_intensity_to_workout 100 ''hypertrophy'' 1.2)) = 5
   \<and> (0.8::real) < 0.9
   \<and> recommended (reps_selection (decode_intensity_to_workout 100 ''hypertrophy'' 0.8)) = 16
   \<and> (0.9::real) \<le> 1 \<and> (1::real) \<le> 1.1
   \<and> recommended (reps_selection (decode_intensity_to_workout 100 ''hypertrophy'' 1)) = 14
   \<and> WORKOUT_GOAL_MAPPING_V4 ''cardio'' = None
   \<and> goal (decode_intensity_to_workout 100 ''cardio'' 1) = ''general_fitness''"
proof -
  have h: "select_rules ''hypertrophy'' = (''hypertrophy'', hypertrophy_rules)"
    by (simp add: select_rules_def WORKOUT_GOAL_MAPPING_V4_def)
  have n: "WORKOUT_GOAL_MAPPING_V4 ''cardio'' = None"
    by (simp add: WORKOUT_GOAL_MAPPING_V4_def)
  have c: "select_rules ''cardio'' = (''general_fitness'', general_fitness_rules)"
    by (simp add: select_rules_def n)
  have g: "goal (decode_intensity_to_workout 100 ''general_fitness'' 1) = ''general_fitness''"
    by (simp add: decode_intensity_to_workout_def select_rules_def WORKOUT_GOAL_MAPPING_V4_def
        Let_def split_beta)
  show ?thesis
    using decode_branches [OF h, of 100 "1.2"] decode_branches [OF h, of 100 "0.8"]
      decode_branches [OF h, of 100 1] decode_branches [OF c, of 100 1] h n g
    by (simp add: hypertrophy_rules_def py_int_def)
qed

text \<open>
  C6 as stated fails for hypertrophy: the rep range is (8, 20), 80% of its
  midpoint is 11.2, and the decoder recommends 11 reps.
\<close>

theorem decode_fewer_reps_counterexample:
  "real_of_int (recommended (reps_selection (decode_intensity_to_workout 100 ''hypertrophy'' 1.2)))
     \<noteq> 0.8 * (real_of_int (8 + 20) / 2)
   \<and> rep_range hypertrophy_rules = (8, 20) \<and> (1.2::real) > 1.1
   \<and> recommended (reps_selection (decode_intensity_to_workout 100 ''hypertrophy'' 1.2)) = 11"
  by (simp add: decode_intensity_to_workout_def select_rules_def WORKOUT_GOAL_MAPPING_V4_def
      hypertrophy_rules_def Let_def py_int_def)

lemma read_segment_error: "read_segment (pf :: string \<Rightarrow> real option) seg = Inl e \<longleftrightarrow> malformed pf seg"
proof -
  obtain parts where p: "split_on CHR ''x'' (strip seg) = parts" by simp
  show ?thesis
  proof (cases parts)
    case Nil
    then show ?thesis using p by (simp add: read_segment_def malformed_def)
  next
    case (Cons a as)
    note c1 = this
    show ?thesis
    proof (cases as)
      case Nil
      then show ?thesis using p c1 by (simp add: read_segment_def malformed_def)
    next
      case (Cons b bs)
      then show ?thesis using p c1
        by (cases bs; cases e)
           (auto simp: read_segment_def malformed_def Let_def split: option.splits)
    qed
  qed
qed

lemma read_segment_ok:
  "read_segment (pf :: string \<Rightarrow> real option) seg = Inr r \<Longrightarrow>
     segment_record pf seg =
       (case r of None \<Rightarrow> None
        | Some (reps, weight, sets) \<Rightarrow>
            if reps > 0 \<and> weight > 0 \<and> sets > 0 then Some (reps, weight, sets) else None)"
proof -
  assume a: "read_segment pf seg = Inr r"
  obtain parts where p: "split_on CHR ''x'' (strip seg) = parts" by simp
  show ?thesis
  proof (cases parts)
    case Nil
    then show ?thesis using p a by (auto simp: read_segment_def segment_record_def)
  next
    case (Cons a1 as)
    note c1 = this
    show ?thesis
    proof (cases as)
      case Nil
      then show ?thesis using p c1 a
        by (auto simp: read_segment_def segment_record_def split: option.splits)
    next
      case (Cons b bs)
      then show ?thesis using p c1 a
        by (cases bs)
           (auto simp: read_segment_def segment_record_def Let_def split: option.splits if_splits)
    qed
  qed
qed



lemma surviving_records_Cons:
  "surviving_records (pf :: string \<Rightarrow> real option) (seg # segs) =
     (case segment_record pf seg of None \<Rightarrow> surviving_records pf segs
      | Some e \<Rightarrow> e # surviving_records pf segs)"
  by (simp add: surviving_records_def List.map_filter_def split: option.splits)

lemma surviving_records_Nil: "surviving_records (pf :: string \<Rightarrow> real option) [] = []"
  by (simp add: surviving_records_def List.map_filter_def)

lemma parse_loop_prefix:
  "parse_loop (pf :: string \<Rightarrow> real option) segs acc =
     (acc @ surviving_records pf (takeWhile (\<lambda>seg. \<not> malformed pf seg) segs),
      if list_ex (malformed pf) segs then Some ValueError else None)"
proof (induction segs arbitrary: acc)
  case Nil
  then show ?case by (simp add: surviving_records_Nil)
next
  case (Cons seg segs)
  show ?case
  proof (cases "read_segment pf seg")
    case (Inl e)
    then have "malformed pf seg" using read_segment_error by blast
    then show ?thesis using Inl by (cases e) (simp add: surviving_records_Nil)
  next
    case (Inr r)
    then have nm: "\<not> malformed pf seg"
      using read_segment_error [of pf seg ValueError] by simp
    show ?thesis
      using Inr nm Cons.IH read_segment_ok [OF Inr]
      by (cases r) (auto simp: surviving_records_Cons)
  qed
qed

text \<open>
  C1 (amended).  \<open>_parse_workout_data\<close> returns, in order, the records of the
  segments that precede the first malformed segment: a segment with a field that
  is not positive, or with fewer than two parts, is dropped on its own and the
  segments around it are kept, while a segment whose parts do not parse as
  numbers ends the parse, so that no later segment contributes.  When no segment
  is malformed the result is exactly the records of the segments with every
  field positive, sets being 1 when omitted.  The string 10x50x3|8x60x2 gives
  (10, 50, 3) and (8, 60, 2); the string 0x50x3|10x-5x2 gives no record.
\<close>

theorem parse_workout_data_prefix:
  "parse_workout_data (pf :: string \<Rightarrow> real option) s =
     surviving_records pf (takeWhile (\<lambda>seg. \<not> malformed pf seg) (split_on CHR ''|'' s))
   \<and> (\<not> list_ex (malformed pf) (split_on CHR ''|'' s) \<longrightarrow>
        parse_workout_data pf s = surviving_records pf (split_on CHR ''|'' s))
   \<and> parse_workout_data decimal_float ''10x50x3|8x60x2'' = [(10, 50, 3), (8, 60, 2)]
   \<and> parse_workout_data decimal_float ''0x50x3|10x-5x2'' = []"
proof -
  have a: "parse_workout_data pf s =
     surviving_records pf (takeWhile (\<lambda>seg. \<not> malformed pf seg) (split_on CHR ''|'' s))"
    by (simp add: parse_workout_data_def parse_loop_prefix)
  have "\<not> list_ex (malformed pf) (split_on CHR ''|'' s) \<Longrightarrow>
      takeWhile (\<lambda>seg. \<not> malformed pf seg) (split_on CHR ''|'' s) = split_on CHR ''|'' s"
    by (simp add: list_ex_iff)
  then have b0: "\<not> list_ex (malformed pf) (split_on CHR ''|'' s) \<Longrightarrow>
        parse_workout_data pf s = surviving_records pf (split_on CHR ''|'' s)"
    using a by metis
  then have b: "\<not> list_ex (malformed pf) (split_on CHR ''|'' s) \<longrightarrow>
        parse_workout_data pf s = surviving_records pf (split_on CHR ''|'' s)"
    by blast
  have c: "parse_workout_data decimal_float ''10x50x3|8x60x2'' = [(10, 50, 3), (8, 60, 2)]"
    by (simp add: parse_workout_data_def read_segment_def decimal_float_def float_strip_def is_float_space_def
        unsigned_decimal_def strip_def is_space_def is_digit_def digits_value_def)
  have d: "parse_workout_data decimal_float ''0x50x3|10x-5x2'' = []"
    by (simp add: parse_workout_data_def read_segment_def decimal_float_def float_strip_def is_float_space_def
        unsigned_decimal_def strip_def is_space_def is_digit_def digits_value_def)
  show ?thesis using a b c d by blast
qed

theorem parse_workout_data_prefix_witness:
  "\<not> list_ex (malformed decimal_float) (split_on CHR ''|'' ''10x50x3|0x1x1|8x60'')
   \<and> parse_workout_data decimal_float ''10x50x3|0x1x1|8x60'' = [(10, 50, 3), (8, 60, 1)]"
proof -
  have h: "\<not> list_ex (malformed decimal_float) (split_on CHR ''|'' ''10x50x3|0x1x1|8x60'')"
    by (simp add: malformed_def decimal_float_def float_strip_def is_float_space_def
        unsigned_decimal_def strip_def is_space_def is_digit_def digits_value_def)
  have r: "surviving_records decimal_float (split_on CHR ''|'' ''10x50x3|0x1x1|8x60'')
      = [(10, 50, 3), (8, 60, 1)]"
    by (simp add: surviving_records_def List.map_filter_def segment_record_def decimal_float_def float_strip_def is_float_space_def
        unsigned_decimal_def strip_def is_space_def is_digit_def digits_value_def)
  show ?thesis
    using parse_workout_data_prefix [of decimal_float "''10x50x3|0x1x1|8x60''"] h r by simp
qed

text \<open>
  C1 as stated fails on ax1|10x50x3: the second segment is well formed, and the
  parse returns no record because the first segment raised.
\<close>

theorem parse_independent_drop_counterexample:
  "parse_workout_data decimal_float ''ax1|10x50x3'' = []
   \<and> surviving_records decimal_float (split_on CHR ''|'' ''ax1|10x50x3'') = [(10, 50, 3)]"
  by (simp add: parse_workout_data_def read_segment_def surviving_records_def
      List.map_filter_def segment_record_def decimal_float_def float_strip_def is_float_space_def
      unsigned_decimal_def strip_def is_space_def is_digit_def digits_value_def)


lemma parse_workout_data_eq:
  "parse_workout_data (pf :: string \<Rightarrow> real option) s =
     surviving_records pf (takeWhile (\<lambda>seg. \<not> malformed pf seg) (split_on CHR ''|'' s))"
  by (simp add: parse_workout_data_def parse_loop_prefix)

lemma takeWhile_not_malformed:
  "\<not> list_ex (malformed (pf :: string \<Rightarrow> real option)) segs \<Longrightarrow> takeWhile (\<lambda>seg. \<not> malformed pf seg) segs = segs"
  by (induction segs) auto

lemma parse_workout_data_all:
  "\<not> list_ex (malformed (pf :: string \<Rightarrow> real option)) (split_on CHR ''|'' s) \<Longrightarrow>
     parse_workout_data pf s = surviving_records pf (split_on CHR ''|'' s)"
proof -
  assume a: "\<not> list_ex (malformed pf) (split_on CHR ''|'' s)"
  show ?thesis
    unfolding parse_workout_data_eq takeWhile_not_malformed [OF a] ..
qed



lemma process_loop_error:
  "list_ex (malformed (pf :: string \<Rightarrow> real option)) segs \<Longrightarrow> process_loop pf u p segs t = Inl ValueError"
proof (induction segs arbitrary: t)
  case Nil
  then show ?case by simp
next
  case (Cons seg segs)
  obtain tv tr tc tw trt where t: "t = (tv, tr, tc, tw, trt)" by (cases t) auto
  show ?case
  proof (cases "read_segment pf seg")
    case (Inl e)
    then show ?thesis by (cases e) (simp add: t)
  next
    case (Inr r)
    then have "\<not> malformed pf seg"
      using read_segment_error [of pf seg ValueError] by simp
    then have "list_ex (malformed pf) segs" using Cons.prems by simp
    then show ?thesis
      using Inr Cons.IH by (cases r) (auto simp: t Let_def)
  qed
qed

lemma process_loop_sums:
  "\<not> list_ex (malformed (pf :: string \<Rightarrow> real option)) segs \<Longrightarrow>
   process_loop pf u p segs (tv, tr, tc, tw, trt) =
     Inr (tv + (\<Sum>(reps, weight, sets)\<leftarrow>surviving_records pf segs.
                  calculate_volume_load weight reps sets 10000),
          tr + (\<Sum>(reps, weight, sets)\<leftarrow>surviving_records pf segs.
                  calculate_resistance_intensity weight reps u * sets),
          tc + (\<Sum>(reps, weight, sets)\<leftarrow>surviving_records pf segs.
                  calculate_cardio_intensity weight (reps * 4) p * sets),
          tw + (\<Sum>(reps, weight, sets)\<leftarrow>surviving_records pf segs. reps * sets * 4),
          trt + (\<Sum>(reps, weight, sets)\<leftarrow>surviving_records pf segs. sets * 120))"
proof (induction segs arbitrary: tv tr tc tw trt)
  case Nil
  then show ?case by (simp add: surviving_records_Nil)
next
  case (Cons seg segs)
  have nm: "\<not> malformed pf seg" and rest: "\<not> list_ex (malformed pf) segs"
    using Cons.prems by simp_all
  obtain r where r: "read_segment pf seg = Inr r"
    using nm read_segment_error [of pf seg ValueError]
    by (cases "read_segment pf seg") (auto, metis py_error.exhaust)
  show ?case
  proof (cases r)
    case None
    then show ?thesis
      using r read_segment_ok [OF r] Cons.IH [OF rest]
      by (simp add: surviving_records_Cons)
  next
    case (Some e)
    obtain reps weight sets where e: "e = (reps, weight, sets)" by (cases e) auto
    show ?thesis
      using r Some e read_segment_ok [OF r] Cons.IH [OF rest]
      by (auto simp: surviving_records_Cons Let_def add.assoc)
  qed
qed



lemma calculate_intensity_coefficients_nth:
  "i < length data \<Longrightarrow>
     calculate_intensity_coefficients pf draws columns data ! i =
       validate_row (update_row pf (draws i) (init_columns columns (data ! i)))"
  by (simp add: calculate_intensity_coefficients_def validate_intensity_coefficients_def Let_def)

text \<open>
  On finite floats, with exact arithmetic, the clamps put every coefficient in
  its interval, an all-invalid string gives the defaults, and the validation
  step counts exactly the values it changes.
\<close>

lemma validate_row_in_ranges:
  "0.1 \<le> resistance_intensity (validate_row r) \<and> resistance_intensity (validate_row (r :: real row)) \<le> 2
   \<and> 0 \<le> cardio_intensity (validate_row r) \<and> cardio_intensity (validate_row r) \<le> 1.5
   \<and> 0 \<le> volume_load (validate_row r) \<and> volume_load (validate_row r) \<le> 1
   \<and> 0 \<le> rest_density (validate_row r) \<and> rest_density (validate_row r) \<le> 1
   \<and> 0.5 \<le> tempo_factor (validate_row r) \<and> tempo_factor (validate_row r) \<le> 1.5"
  by (simp add: validate_row_def np_clip_real resistance_intensity_range_def
      cardio_intensity_range_def volume_load_range_def rest_density_range_def
      tempo_factor_range_def min_def max_def)

lemma process_exercise_data_in_ranges:
  "0 \<le> resistance_intensity (process_exercise_data (pf :: string \<Rightarrow> real option) w u p)
   \<and> resistance_intensity (process_exercise_data pf w u p) \<le> 2
   \<and> 0 \<le> cardio_intensity (process_exercise_data pf w u p)
   \<and> cardio_intensity (process_exercise_data pf w u p) \<le> 1.5
   \<and> 0 \<le> volume_load (process_exercise_data pf w u p)
   \<and> volume_load (process_exercise_data pf w u p) \<le> 1
   \<and> 0 \<le> rest_density (process_exercise_data pf w u p)
   \<and> rest_density (process_exercise_data pf w u p) \<le> 1
   \<and> 0.5 \<le> tempo_factor (process_exercise_data pf w u p)
   \<and> tempo_factor (process_exercise_data pf w u p) \<le> 1.5"
  by (simp add: process_exercise_data_def default_coefficients_def Let_def np_clip_real
      calculate_tempo_factor_def min_def max_def split: option.splits sum.splits prod.splits)









lemma process_exercise_data_empty_records:
  assumes "parse_workout_data (pf :: string \<Rightarrow> real option) s = []"
  shows "process_exercise_data pf (Some s) u p = default_coefficients"
proof (cases "list_ex (malformed pf) (split_on CHR ''|'' s)")
  case True
  then show ?thesis
    by (simp add: process_exercise_data_def Let_def process_loop_error)
next
  case False
  then have "surviving_records pf (split_on CHR ''|'' s) = []"
    using assms parse_workout_data_all [of pf s] by simp
  then show ?thesis
    by (simp add: process_exercise_data_def Let_def process_loop_sums [OF False])
qed

lemma numeral_py_float: "(numeral k :: py_float) = Finite (numeral k)"
proof (induction k)
  case One
  show ?case by (simp add: one_py_float_def)
next
  case (Bit0 k)
  have "(numeral (Num.Bit0 k) :: py_float) = numeral k + numeral k"
    by (rule numeral_Bit0)
  also have "\<dots> = Finite (numeral k + numeral k)"
    by (simp only: Bit0.IH plus_py_float.simps)
  also have "\<dots> = Finite (numeral (Num.Bit0 k))"
    by (simp only: numeral_Bit0)
  finally show ?case .
next
  case (Bit1 k)
  have "(numeral (Num.Bit1 k) :: py_float) = numeral k + numeral k + 1"
    by (rule numeral_Bit1)
  also have "\<dots> = Finite (numeral k + numeral k + 1)"
    by (simp only: Bit1.IH plus_py_float.simps one_py_float_def)
  also have "\<dots> = Finite (numeral (Num.Bit1 k))"
    by (simp only: numeral_Bit1)
  finally show ?case .
qed

lemma power_py_float: "Finite a ^ n = Finite (a ^ n)"
  by (induction n) (simp_all add: one_py_float_def)

lemma from_nat_py_float: "(from_nat n :: py_float) = Finite (real n)"
  by (induction n) (simp_all add: zero_py_float_def one_py_float_def)

lemmas py_float_arith = numeral_py_float power_py_float from_nat_py_float
  zero_py_float_def one_py_float_def inverse_py_float_def

lemma ieee_float_examples:
  "ieee_float ''10'' = Some (Finite 10)" "ieee_float ''1'' = Some (Finite 1)"
  "ieee_float ''3'' = Some (Finite 3)" "ieee_float ''nan'' = Some NaN"
  "ieee_float ''inf'' = Some PosInf"
  by (simp_all add: ieee_float_def decimal_float_def float_strip_def is_float_space_def unsigned_decimal_def strip_def is_space_def
      is_digit_def digits_value_def lower_def lower_char_def)

lemma np_clip_nan: "np_clip NaN lo hi = NaN"
  by (simp add: np_clip_def np_minimum_def np_maximum_def)

text \<open>
  C9 (defect in the code).  With no workout string and with the empty string
  \<open>process_exercise_data\<close> returns the default coefficients.  It does not on
  the string 10xnanx3, from which the parser keeps no record: the guard
  \<open>reps <= 0 or weight <= 0 or sets <= 0\<close> is false of a NaN weight, the segment
  is not skipped, and the result has NaN for resistance, cardio and volume, rest
  density 0.75 and tempo factor 4/3 where the defaults are 0, 0, 0, 0.3 and 1.
\<close>

theorem nan_field_is_not_skipped:
  "process_exercise_data pf None u p = default_coefficients
   \<and> process_exercise_data pf (Some []) u p = default_coefficients
   \<and> parse_workout_data ieee_float ''10xnanx3'' = []
   \<and> process_exercise_data ieee_float (Some ''10xnanx3'') 100 1 =
        \<lparr>resistance_intensity = NaN, cardio_intensity = NaN, volume_load = NaN,
         rest_density = Finite (3 / 4), tempo_factor = Finite (4 / 3)\<rparr>
   \<and> process_exercise_data ieee_float (Some ''10xnanx3'') 100 1 \<noteq> default_coefficients"
proof -
  have seg: "read_segment ieee_float ''10xnanx3'' = Inr (Some (Finite 10, NaN, Finite 3))"
    by (simp add: read_segment_def strip_def is_space_def ieee_float_examples)
  have a: "parse_workout_data ieee_float ''10xnanx3'' = []"
    by (simp add: parse_workout_data_def seg py_float_arith)
  have b: "process_exercise_data ieee_float (Some ''10xnanx3'') 100 1 =
        \<lparr>resistance_intensity = NaN, cardio_intensity = NaN, volume_load = NaN,
         rest_density = Finite (3 / 4), tempo_factor = Finite (4 / 3)\<rparr>"
    by (simp add: process_exercise_data_def seg Let_def calculate_resistance_intensity_def
        calculate_cardio_intensity_def calculate_volume_load_def calculate_tempo_factor_def
        np_clip_def np_minimum_def np_maximum_def py_float_arith)
  have c: "process_exercise_data ieee_float (Some ''10xnanx3'') 100 1 \<noteq> default_coefficients"
    unfolding b by (simp add: default_coefficients_def py_float_arith)
  show ?thesis using a b c by (simp add: process_exercise_data_def)
qed

lemma np_clip_changes: "lo \<le> hi \<Longrightarrow> np_clip x lo hi \<noteq> x \<longleftrightarrow> (x::real) < lo \<or> x > hi"
  by (auto simp: np_clip_real min_def max_def)

lemma validate_counts_clamped:
  "fst (validate_intensity_coefficients (data :: real row list)) =
     [length (filter (\<lambda>r. resistance_intensity (validate_row r) \<noteq> resistance_intensity r) data),
      length (filter (\<lambda>r. cardio_intensity (validate_row r) \<noteq> cardio_intensity r) data),
      length (filter (\<lambda>r. volume_load (validate_row r) \<noteq> volume_load r) data),
      length (filter (\<lambda>r. rest_density (validate_row r) \<noteq> rest_density r) data),
      length (filter (\<lambda>r. tempo_factor (validate_row r) \<noteq> tempo_factor r) data)]"
  by (simp add: validate_intensity_coefficients_def outliers_before_def validate_row_def
      np_clip_changes resistance_intensity_range_def cardio_intensity_range_def
      volume_load_range_def rest_density_range_def tempo_factor_range_def)

text \<open>
  C8 (defect in the code).  The string 1x1xinf parses to the record
  (1, 1, inf), whose fields are all positive.  Its rest time and its work time
  are both infinite, the rest density is inf / inf, and NaN passes \<open>np.clip\<close>
  unchanged: both \<open>process_exercise_data\<close> and
  \<open>calculate_intensity_coefficients\<close> return a rest density that is NaN, outside
  [0, 1], and the validation step counts no outlier in that column, because both
  of its comparisons are false of NaN.
\<close>

theorem nan_passes_the_clamp:
  "parse_workout_data ieee_float ''1x1xinf'' = [(Finite 1, Finite 1, PosInf)]
   \<and> rest_density (process_exercise_data ieee_float (Some ''1x1xinf'') 100 1) = NaN
   \<and> \<not> within_documented_ranges (process_exercise_data ieee_float (Some ''1x1xinf'') 100 1)
   \<and> rest_density
        (calculate_intensity_coefficients ieee_float (constant_draws 1) []
           [example_row ''1x1xinf'' 100] ! 0) = NaN
   \<and> \<not> within_documented_ranges
        (calculate_intensity_coefficients ieee_float (constant_draws 1) []
           [example_row ''1x1xinf'' 100] ! 0)
   \<and> fst (validate_intensity_coefficients
        [update_row ieee_float 1 (init_columns [] (example_row ''1x1xinf'' 100))])
        = [0, 0, 0, 0, 0]"
proof -
  have seg: "read_segment ieee_float ''1x1xinf'' = Inr (Some (Finite 1, Finite 1, PosInf))"
    by (simp add: read_segment_def strip_def is_space_def ieee_float_examples)
  have a: "parse_workout_data ieee_float ''1x1xinf'' = [(Finite 1, Finite 1, PosInf)]"
    by (simp add: parse_workout_data_def seg py_float_arith)
  have b: "process_exercise_data ieee_float (Some ''1x1xinf'') 100 1 =
        \<lparr>resistance_intensity = Finite 2, cardio_intensity = Finite (3 / 2),
         volume_load = Finite 1, rest_density = NaN, tempo_factor = Finite (4 / 3)\<rparr>"
    by (simp add: process_exercise_data_def seg Let_def calculate_resistance_intensity_def
        calculate_cardio_intensity_def calculate_volume_load_def calculate_tempo_factor_def
        np_clip_def np_minimum_def np_maximum_def py_float_arith)
  have c: "update_row ieee_float 1 (init_columns [] (example_row ''1x1xinf'' 100)) =
        \<lparr>resistance_intensity = Finite 2, cardio_intensity = Finite (3 / 2),
         volume_load = Finite 1, rest_density = NaN, tempo_factor = Finite 1,
         metabolic_stress = Finite (9 / 5), workout_data = Some ''1x1xinf'',
         estimated_1rm = Some (Finite 100)\<rparr>"
    by (simp add: update_row_def init_columns_def example_row_def a Let_def py_min_def py_max_def
        np_clip_def np_minimum_def np_maximum_def py_float_arith)
  have d: "calculate_intensity_coefficients ieee_float (constant_draws 1) []
           [example_row ''1x1xinf'' 100] ! 0
      = validate_row (update_row ieee_float 1 (init_columns [] (example_row ''1x1xinf'' 100)))"
    by (simp add: calculate_intensity_coefficients_nth constant_draws_def)
  have e: "rest_density (validate_row
        (update_row ieee_float 1 (init_columns [] (example_row ''1x1xinf'' 100)))) = NaN"
    unfolding c by (simp add: validate_row_def np_clip_nan)
  have f: "fst (validate_intensity_coefficients
        [update_row ieee_float 1 (init_columns [] (example_row ''1x1xinf'' 100))])
        = [0, 0, 0, 0, 0]"
    unfolding c
    by (simp add: validate_intensity_coefficients_def outliers_before_def
        resistance_intensity_range_def cardio_intensity_range_def volume_load_range_def
        rest_density_range_def tempo_factor_range_def py_float_arith)
  have g: "rest_density
        (calculate_intensity_coefficients ieee_float (constant_draws 1) []
           [example_row ''1x1xinf'' 100] ! 0) = NaN"
    unfolding d by (rule e)
  have h: "\<not> within_documented_ranges (process_exercise_data ieee_float (Some ''1x1xinf'') 100 1)"
    unfolding within_documented_ranges_def b by (simp add: py_float_arith)
  have i: "\<not> within_documented_ranges
        (calculate_intensity_coefficients ieee_float (constant_draws 1) []
           [example_row ''1x1xinf'' 100] ! 0)"
    unfolding within_documented_ranges_def g by (simp add: py_float_arith)
  have j: "rest_density (process_exercise_data ieee_float (Some ''1x1xinf'') 100 1) = NaN"
    unfolding b by simp
  show ?thesis using a f g h i j by blast
qed







lemma first_ignoring_case_lookup:
  "first_ignoring_case mapping v = lookup_ignoring_case mapping v"
  by (induction mapping) (auto simp: lookup_ignoring_case_def)

lemma exact_then_ignoring_case:
  assumes "distinct (map (\<lambda>(k, x). lower k) mapping)" and "map_of mapping v = Some y"
  shows "first_ignoring_case mapping v = Some y"
  using assms
proof (induction mapping)
  case Nil
  then show ?case by simp
next
  case (Cons kx mapping)
  obtain k x where kx: "kx = (k, x)" by (cases kx) auto
  show ?case
  proof (cases "k = v")
    case True
    then show ?thesis using Cons.prems kx by simp
  next
    case False
    then have m: "map_of mapping v = Some y" using Cons.prems kx by simp
    then have "(v, y) \<in> set mapping" by (rule map_of_SomeD)
    then have "lower v \<in> set (map (\<lambda>(k, x). lower k) mapping)" by force
    then have "lower k \<noteq> lower v" using Cons.prems(1) kx by auto
    then show ?thesis using Cons.IH m Cons.prems(1) kx by simp
  qed
qed

lemma py_int_in_scale: "(1 \<le> py_int x \<and> py_int x \<le> 5) \<longleftrightarrow> (1 \<le> x \<and> x < 6)"
  by (auto simp: py_int_def le_floor_iff floor_le_iff le_ceiling_iff ceiling_le_iff)

lemma numeric_in_scale_finite:
  "numeric_in_scale (Some (Finite x)) = (if 1 \<le> x \<and> x < 6 then Inr (Some \<lfloor>x\<rfloor>) else Inr None)"
  using py_int_in_scale [of x] by (auto simp: numeric_in_scale_def Let_def py_int_def)

lemma numeric_in_scale_unread:
  "numeric_in_scale None = Inr None" "numeric_in_scale (Some NaN) = Inr None"
  by (simp_all add: numeric_in_scale_def)

lemma numeric_in_scale_infinite:
  "numeric_in_scale (Some PosInf) = Inl OverflowError"
  "numeric_in_scale (Some NegInf) = Inl OverflowError"
  by (simp_all add: numeric_in_scale_def)

lemma table_lookup:
  assumes "distinct (map (\<lambda>(k, x). lower k) mapping)"
  shows "(case map_of mapping v of
            Some val \<Rightarrow> Inr val
          | None \<Rightarrow> (case first_ignoring_case mapping v of Some val \<Rightarrow> Inr val | None \<Rightarrow> Inr d))
         = Inr (case lookup_ignoring_case mapping v of Some val \<Rightarrow> val | None \<Rightarrow> d)"
  using exact_then_ignoring_case [OF assms, of v]
  by (auto simp: first_ignoring_case_lookup split: option.splits)

text \<open>
  An infinite float, or a string that \<open>float\<close> reads as one, makes the mapper of
  data\_cleaning\_v4.py raise OverflowError.
\<close>

lemma map_sepa_to_numeric_infinite:
  "map_sepa_to_numeric pf (Num PosInf) mapping d = Inl OverflowError"
  "map_sepa_to_numeric pf (Num NegInf) mapping d = Inl OverflowError"
  "pf s = Some PosInf \<or> pf s = Some NegInf \<Longrightarrow>
     map_sepa_to_numeric pf (Str s) mapping d = Inl OverflowError"
  "map_sepa_to_numeric ieee_float (Str ''inf'') mood_mapping 3 = Inl OverflowError"
  by (auto simp: numeric_in_scale_infinite ieee_float_examples)

text \<open>
  C3 (amended).  For a table whose keys stay distinct when case is ignored, and
  for every value that is not an infinite float and not a string that \<open>float\<close>
  reads as an infinity, the mapper of data\_cleaning\_v4.py returns without
  raising: the default for a missing value or NaN; for a finite number, or a
  string that \<open>float\<close> reads as one, the number truncated to an integer when
  that lies in 1..5 (so the integers 1 to 5 are returned unchanged, and every x
  with 1 \<le> x < 6 gives its floor); otherwise, for a string, the table entry
  whose key equals the stripped string up to case, and the default when there
  is none; a finite number outside [1, 6) gives the default.  The mapper of
  recommendation\_v4.py returns the entry of its table under the lower-cased
  value and 3 when there is none.
\<close>

theorem map_sepa_to_numeric_cases:
  assumes "distinct (map (\<lambda>(k, x). lower k) mapping)"
  shows "map_sepa_to_numeric pf Missing mapping d = Inr d
       \<and> map_sepa_to_numeric pf (Num NaN) mapping d = Inr d
       \<and> (1 \<le> n \<and> n \<le> 5 \<longrightarrow> map_sepa_to_numeric pf (Num (Finite (of_int n))) mapping d = Inr n)
       \<and> (1 \<le> x \<and> x < 6 \<longrightarrow> map_sepa_to_numeric pf (Num (Finite x)) mapping d = Inr \<lfloor>x\<rfloor>)
       \<and> (\<not> (1 \<le> x \<and> x < 6) \<longrightarrow> map_sepa_to_numeric pf (Num (Finite x)) mapping d = Inr d)
       \<and> (pf s = Some (Finite x) \<and> 1 \<le> x \<and> x < 6 \<longrightarrow>
            map_sepa_to_numeric pf (Str s) mapping d = Inr \<lfloor>x\<rfloor>)
       \<and> (pf s = None \<or> pf s = Some NaN \<or> (pf s = Some (Finite x) \<and> \<not> (1 \<le> x \<and> x < 6)) \<longrightarrow>
            map_sepa_to_numeric pf (Str s) mapping d =
              Inr (case lookup_ignoring_case mapping (strip s) of Some val \<Rightarrow> val | None \<Rightarrow> d))
       \<and> map_sepa_to_numeric_service v =
            (case map_of service_mapping (lower v) of Some val \<Rightarrow> val | None \<Rightarrow> 3)"
proof -
  have n: "1 \<le> n \<and> n \<le> 5 \<longrightarrow> map_sepa_to_numeric pf (Num (Finite (of_int n))) mapping d = Inr n"
    by (simp add: numeric_in_scale_finite)
  have s1: "pf s = Some (Finite x) \<and> 1 \<le> x \<and> x < 6 \<longrightarrow>
      map_sepa_to_numeric pf (Str s) mapping d = Inr \<lfloor>x\<rfloor>"
    by (simp add: numeric_in_scale_finite)
  have s2: "pf s = None \<or> pf s = Some NaN \<or> (pf s = Some (Finite x) \<and> \<not> (1 \<le> x \<and> x < 6)) \<longrightarrow>
            map_sepa_to_numeric pf (Str s) mapping d =
              Inr (case lookup_ignoring_case mapping (strip s) of Some val \<Rightarrow> val | None \<Rightarrow> d)"
    using table_lookup [OF assms, where v = "strip s" and d = d]
    by (auto simp: numeric_in_scale_finite numeric_in_scale_unread Let_def)
  show ?thesis
    using n s1 s2
    by (simp add: numeric_in_scale_finite map_sepa_to_numeric_service_def split: option.splits)
qed

theorem map_sepa_to_numeric_cases_witness:
  "distinct (map (\<lambda>(k, x). lower k) mood_mapping)
   \<and> map_sepa_to_numeric ieee_float (Num (Finite 4)) mood_mapping 3 = Inr 4
   \<and> map_sepa_to_numeric ieee_float (Num (Finite 4.5)) mood_mapping 3 = Inr 4
   \<and> map_sepa_to_numeric ieee_float (Num (Finite 7)) mood_mapping 3 = Inr 3
   \<and> ieee_float ''3'' = Some (Finite 3)
   \<and> map_sepa_to_numeric ieee_float (Str ''3'') mood_mapping 1 = Inr 3
   \<and> ieee_float ''nan'' = Some NaN
   \<and> map_sepa_to_numeric ieee_float (Str ''nan'') mood_mapping 3 = Inr 3
   \<and> ieee_float '' very GOOD '' = None
   \<and> map_sepa_to_numeric ieee_float (Str '' very GOOD '') mood_mapping 3 = Inr 5"
proof -
  have d: "distinct (map (\<lambda>(k, x). lower k) mood_mapping)"
    by (simp add: mood_mapping_def lower_def lower_char_def)
  have fg: "ieee_float '' very GOOD '' = None"
    by (simp add: ieee_float_def decimal_float_def float_strip_def is_float_space_def unsigned_decimal_def strip_def is_space_def
        is_digit_def digits_value_def lower_def lower_char_def)
  have lk: "lookup_ignoring_case mood_mapping (strip '' very GOOD '') = Some 5"
    by (simp add: lookup_ignoring_case_def mood_mapping_def lower_def lower_char_def strip_def
        is_space_def)
  have ln: "lookup_ignoring_case mood_mapping (strip ''nan'') = None"
    by (simp add: lookup_ignoring_case_def mood_mapping_def lower_def lower_char_def strip_def
        is_space_def)
  show ?thesis
    using map_sepa_to_numeric_cases [OF d, where n = 4 and pf = ieee_float and d = 3
        and x = "4.5" and s = "''nan''"]
      map_sepa_to_numeric_cases [OF d, where n = 4 and pf = ieee_float and d = 3
        and x = 7 and s = "''nan''"]
      map_sepa_to_numeric_cases [OF d, where n = 4 and pf = ieee_float and d = 1
        and x = 3 and s = "''3''"]
      map_sepa_to_numeric_cases [OF d, where n = 4 and pf = ieee_float and d = 3
        and x = 2 and s = "'' very GOOD ''"]
      d fg lk ln ieee_float_examples
    by simp
qed

text \<open>
  C3 as stated fails: 5.5 is a number outside 1..5, and the mapper of
  data\_cleaning\_v4.py returns 5 for it, not the default 3; the mapper of
  recommendation\_v4.py returns 3 for the numeral string 4.
\<close>

theorem map_sepa_out_of_range_counterexample:
  "\<not> ((1::real) \<le> 5.5 \<and> (5.5::real) \<le> 5)
   \<and> map_sepa_to_numeric ieee_float (Num (Finite 5.5)) mood_mapping 3 = Inr 5
   \<and> map_sepa_to_numeric_service ''4'' = 3"
  by (simp add: numeric_in_scale_def py_int_def map_sepa_to_numeric_service_def
      service_mapping_def lower_def lower_char_def)

lemma response_name_unbound: "load_name ''RecommendResponseV4'' = Inl NameError"
  by (simp add: load_name_def module_names_def)

text \<open>
  C10 (defect in the code).  \<open>RecommendResponseV4\<close> is not among the names the
  module binds.  The \<open>def\<close> statement of \<open>recommend_v4\<close> raises NameError when
  the module is imported, and the body of the function, whatever the model and
  the request, ends in an error and never in a response: with a loaded model and
  one prediction per candidate it computes, filters and sorts the items and
  then raises NameError at its \<open>return\<close>.
\<close>

theorem recommend_v4_raises_name_error:
  "define_recommend_v4 = Inl NameError
   \<and> isl (recommend_v4 model req)
   \<and> recommend_v4 (Some example_predict) (example_request 5) = Inl NameError"
proof -
  have a: "define_recommend_v4 = Inl NameError"
    by (simp add: define_recommend_v4_def load_name_def module_names_def)
  have b: "isl (recommend_v4 model req)"
    by (simp add: recommend_v4_def Let_def response_name_unbound
        split: option.splits sum.splits prod.splits)
  have p: "example_predict (example_request 5) (candidates_of (example_request 5))
      = ([4, 9, 5], [2 / 5, 9 / 10, 1 / 2])"
    by (simp add: example_predict_def candidates_of_def example_request_def)
  have r: "\<exists>found. process_results (example_request 5) (candidates_of (example_request 5))
      [4, 9, 5] [2 / 5, 9 / 10, 1 / 2] = Inr found"
    by (simp add: candidates_of_def example_request_def)
  have c: "recommend_v4 (Some example_predict) (example_request 5) = Inl NameError"
    using r by (auto simp: recommend_v4_def Let_def p response_name_unbound)
  show ?thesis using a b c by simp
qed

end
